theory Spec2Isabelle
  imports Main
begin

section \<open>Data model of \<open>backend/app.py\<close>\<close>

text \<open>
  A timestamp is a naive UTC \<open>datetime\<close>, modelled by its position on the time line in
  microseconds (the resolution of \<open>datetime\<close>). The source stores the text produced by
  \<open>isoformat()\<close> and reads it back with \<open>fromisoformat\<close>. In that text every field is
  zero-padded and the microseconds are left out when they are 0, so the order of two
  such texts as Python strings is the order of the instants they denote: comparing
  \<open>created_at\<close> values as strings (the sort keys) and as datetimes (the sweep) is the
  same comparison on the instant.
\<close>

type_synonym timestamp = int

text \<open>The records kept in \<open>whispers.json\<close> and \<open>replies.json\<close> (JSON objects with fixed keys).\<close>

record whisper =
  w_id :: int
  w_content :: string
  w_topic :: string
  w_is_sensitive :: bool
  w_replies_count :: int
  w_created_at :: timestamp

record reply =
  r_id :: int
  r_whisper_id :: int
  r_content :: string
  r_created_at :: timestamp

text \<open>
  The two data files. A file either holds a JSON list of records or cannot be read or
  parsed (\<open>None\<close>); \<open>init_data\<close> creates both files holding the empty list.
\<close>

record store =
  whispers_file :: "whisper list option"
  replies_file :: "reply list option"

definition init_data :: store where
  "init_data = \<lparr>whispers_file = Some [], replies_file = Some []\<rparr>"

text \<open>The JSON body of \<open>POST /api/whispers\<close> and of \<open>POST /api/whispers/<id>/replies\<close>:
  an object whose \<open>content\<close> and \<open>topic\<close> are strings and whose \<open>is_sensitive\<close> is a
  boolean; a key that is absent is \<open>None\<close>.\<close>

record whisper_request =
  req_content :: "string option"
  req_topic :: "string option"
  req_is_sensitive :: "bool option"

record reply_request =
  rreq_content :: "string option"

text \<open>What a route returns: status 200 with the data, or 400, 404, 500.\<close>

datatype 'a response = Success 'a | BadRequest | NotFound | ServerError

definition ALL_TOPICS :: "string list" where
  "ALL_TOPICS =
    [''confession'', ''life'', ''secrets'', ''advice'', ''love'',
     ''series-movies'', ''politically-incorrect'', ''paranormal'',
     ''health-fitness'', ''vent'', ''music'', ''fashion'',
     ''gaming'', ''otaku-stuff'', ''random'']"

section \<open>Persistence\<close>

text \<open>\<open>load_data\<close>: any failure to read or parse the file gives the empty list.\<close>

definition load_data :: "'a list option \<Rightarrow> 'a list" where
  "load_data file = (case file of None \<Rightarrow> [] | Some records \<Rightarrow> records)"

text \<open>
  What happens to a write is an input of the environment. \<open>open(filename, 'w')\<close> may
  raise, and then the file is as it was; once it has opened the file, the file is
  truncated, and when \<open>json.dump\<close> (or closing the file) then raises, what is left is an
  empty or cut-off text that \<open>json.load\<close> does not parse.
\<close>

datatype write_outcome = Written | Open_failed | Dump_failed

text \<open>\<open>save_data\<close>: returns the new content of the file and the boolean the source returns.\<close>

definition save_data :: "write_outcome \<Rightarrow> 'a list option \<Rightarrow> 'a list
    \<Rightarrow> 'a list option \<times> bool" where
  "save_data outcome file data =
     (case outcome of
        Written \<Rightarrow> (Some data, True)
      | Open_failed \<Rightarrow> (file, False)
      | Dump_failed \<Rightarrow> (None, False))"

section \<open>Python built-ins used by the routes\<close>

text \<open>\<open>max(xs, default=d)\<close>.\<close>

definition py_max_default :: "int list \<Rightarrow> int \<Rightarrow> int" where
  "py_max_default xs d = (case xs of [] \<Rightarrow> d | x # ys \<Rightarrow> fold max ys x)"

text \<open>
  \<open>str.strip()\<close>: removes leading and trailing whitespace. A \<open>char\<close> stands for a code
  point below 256; those for which \<open>str.isspace\<close> holds are 9 to 13, 28 to 32, 133 and 160.
\<close>

definition py_isspace :: "char \<Rightarrow> bool" where
  "py_isspace c =
     (let n = (of_char c :: nat)
      in (9 \<le> n \<and> n \<le> 13) \<or> (28 \<le> n \<and> n \<le> 32) \<or> n = 133 \<or> n = 160)"

definition strip :: "string \<Rightarrow> string" where
  "strip s = rev (dropWhile py_isspace (rev (dropWhile py_isspace s)))"

text \<open>\<open>next((w for w in whispers if w['id'] == id), None)\<close>.\<close>

definition find_whisper :: "int \<Rightarrow> whisper list \<Rightarrow> whisper option" where
  "find_whisper i whispers = find (\<lambda>w. w_id w = i) whispers"

text \<open>\<open>xs.sort(key=f)\<close> is a stable ascending sort; with \<open>reverse=True\<close> the list is
  reversed, sorted and reversed again, which keeps equal keys in their original order.\<close>

definition py_sort :: "('a \<Rightarrow> 'k::linorder) \<Rightarrow> bool \<Rightarrow> 'a list \<Rightarrow> 'a list" where
  "py_sort key reverse xs =
     (if reverse then rev (sort_key key (rev xs)) else sort_key key xs)"

section \<open>The expiry sweep\<close>

definition hours48 :: int where
  "hours48 = 48 * 3600 * 1000000"

text \<open>The \<open>for whisper in whispers\<close> loop of \<open>cleanup_old_whispers\<close>, with its two accumulators.\<close>

fun cleanup_loop :: "timestamp \<Rightarrow> whisper list \<Rightarrow> whisper list \<Rightarrow> int list
    \<Rightarrow> whisper list \<times> int list" where
  "cleanup_loop cutoff_time [] filtered_whispers deleted_ids = (filtered_whispers, deleted_ids)"
| "cleanup_loop cutoff_time (whisper # rest) filtered_whispers deleted_ids =
     (if w_created_at whisper > cutoff_time
      then cleanup_loop cutoff_time rest (filtered_whispers @ [whisper]) deleted_ids
      else cleanup_loop cutoff_time rest filtered_whispers (deleted_ids @ [w_id whisper]))"

text \<open>
  \<open>cleanup_old_whispers\<close> at clock reading \<open>now\<close>; \<open>ok_replies\<close> and \<open>ok_whispers\<close> are the
  outcomes of its two writes (their results are ignored by the source). On records of the
  types above nothing in the body raises, so the function returns \<open>True\<close>.
\<close>

definition cleanup_old_whispers :: "timestamp \<Rightarrow> write_outcome \<Rightarrow> write_outcome \<Rightarrow> store
    \<Rightarrow> store \<times> bool" where
  "cleanup_old_whispers now ok_replies ok_whispers s =
     (let whispers = load_data (whispers_file s);
          cutoff_time = now - hours48;
          (filtered_whispers, deleted_ids) = cleanup_loop cutoff_time whispers [] []
      in if deleted_ids \<noteq> [] then
           (let replies = load_data (replies_file s);
                filtered_replies = filter (\<lambda>r. r_whisper_id r \<notin> set deleted_ids) replies;
                (rf, _) = save_data ok_replies (replies_file s) filtered_replies;
                (wf, _) = save_data ok_whispers (whispers_file s) filtered_whispers
            in (s\<lparr>replies_file := rf, whispers_file := wf\<rparr>, True))
         else (s, True))"

section \<open>Routes\<close>

text \<open>\<open>GET /api/whispers\<close>; \<open>topic\<close> is the query argument, \<open>None\<close> when it is not given.\<close>

definition get_whispers :: "timestamp \<Rightarrow> write_outcome \<Rightarrow> write_outcome \<Rightarrow> string option \<Rightarrow> store
    \<Rightarrow> store \<times> whisper list response" where
  "get_whispers now ok_replies ok_whispers topic_arg s =
     (let (s1, _) = cleanup_old_whispers now ok_replies ok_whispers s;
          topic = (case topic_arg of None \<Rightarrow> ''all'' | Some t \<Rightarrow> t);
          whispers = load_data (whispers_file s1);
          whispers1 = (if topic \<noteq> ''all'' then filter (\<lambda>w. w_topic w = topic) whispers
                       else whispers)
      in (s1, Success (py_sort w_created_at True whispers1)))"

text \<open>\<open>GET /api/whispers/<id>\<close>.\<close>

definition get_whisper :: "int \<Rightarrow> store \<Rightarrow> whisper response" where
  "get_whisper i s =
     (case find_whisper i (load_data (whispers_file s)) of
        None \<Rightarrow> NotFound
      | Some whisper \<Rightarrow> Success whisper)"

text \<open>\<open>POST /api/whispers\<close>; \<open>data\<close> is the parsed body (\<open>None\<close> when there is none),
  \<open>ok\<close> is the outcome of the write.\<close>

definition create_whisper :: "timestamp \<Rightarrow> write_outcome \<Rightarrow> whisper_request option \<Rightarrow> store
    \<Rightarrow> store \<times> whisper response" where
  "create_whisper now ok data s =
     (case data of
        None \<Rightarrow> (s, BadRequest)
      | Some d \<Rightarrow>
          (case req_content d of
             None \<Rightarrow> (s, BadRequest)
           | Some content \<Rightarrow>
               if content = [] then (s, BadRequest)
               else
                 (let whispers = load_data (whispers_file s);
                      max_id = py_max_default (map w_id whispers) 0;
                      whisper = \<lparr>w_id = max_id + 1,
                                 w_content = strip content,
                                 w_topic = (case req_topic d of None \<Rightarrow> ''random'' | Some t \<Rightarrow> t),
                                 w_is_sensitive =
                                   (case req_is_sensitive d of None \<Rightarrow> False | Some b \<Rightarrow> b),
                                 w_replies_count = 0,
                                 w_created_at = now\<rparr>;
                      (wf, saved) = save_data ok (whispers_file s) (whispers @ [whisper])
                  in if saved then (s\<lparr>whispers_file := wf\<rparr>, Success whisper)
                     else (s\<lparr>whispers_file := wf\<rparr>, ServerError))))"

text \<open>\<open>GET /api/whispers/<id>/replies\<close>.\<close>

definition get_replies :: "int \<Rightarrow> store \<Rightarrow> reply list response" where
  "get_replies i s =
     (let replies = load_data (replies_file s);
          whisper_replies = filter (\<lambda>r. r_whisper_id r = i) replies
      in Success (py_sort r_created_at False whisper_replies))"

text \<open>\<open>whisper['replies_count'] = n\<close>, where \<open>whisper\<close> is the first element of the list
  whose id is \<open>i\<close>: the assignment changes that element of the list in place.\<close>

fun set_replies_count :: "int \<Rightarrow> int \<Rightarrow> whisper list \<Rightarrow> whisper list" where
  "set_replies_count i n [] = []"
| "set_replies_count i n (w # ws) =
     (if w_id w = i then w\<lparr>w_replies_count := n\<rparr> # ws
      else w # set_replies_count i n ws)"

text \<open>\<open>POST /api/whispers/<id>/replies\<close>; \<open>ok_replies\<close> and \<open>ok_whispers\<close> are the
  outcomes of the write of the replies and of the following write of the whispers.\<close>

definition create_reply :: "timestamp \<Rightarrow> write_outcome \<Rightarrow> write_outcome \<Rightarrow> int
    \<Rightarrow> reply_request option \<Rightarrow> store
    \<Rightarrow> store \<times> reply response" where
  "create_reply now ok_replies ok_whispers i data s =
     (case data of
        None \<Rightarrow> (s, BadRequest)
      | Some d \<Rightarrow>
          (case rreq_content d of
             None \<Rightarrow> (s, BadRequest)
           | Some content \<Rightarrow>
               if content = [] then (s, BadRequest)
               else
                 (let whispers = load_data (whispers_file s)
                  in case find_whisper i whispers of
                       None \<Rightarrow> (s, NotFound)
                     | Some whisper \<Rightarrow>
                         (let replies = load_data (replies_file s);
                              max_id = py_max_default (map r_id replies) 0;
                              reply = \<lparr>r_id = max_id + 1,
                                       r_whisper_id = i,
                                       r_content = strip content,
                                       r_created_at = now\<rparr>;
                              replies1 = replies @ [reply];
                              (rf, saved) = save_data ok_replies (replies_file s) replies1
                          in if saved then
                               (let n = int (length (filter (\<lambda>r. r_whisper_id r = i) replies1));
                                    (wf, _) = save_data ok_whispers (whispers_file s)
                                                (set_replies_count i n whispers)
                                in (s\<lparr>replies_file := rf, whispers_file := wf\<rparr>, Success reply))
                             else (s\<lparr>replies_file := rf\<rparr>, ServerError)))))"

section \<open>Notions used to state the properties\<close>

text \<open>A whisper is expired at \<open>now\<close> when its creation time is at or before \<open>now - 48h\<close>:
  the negation of the test that keeps it in \<open>cleanup_old_whispers\<close>.\<close>

definition is_expired :: "timestamp \<Rightarrow> whisper \<Rightarrow> bool" where
  "is_expired now w = (w_created_at w \<le> now - hours48)"

text \<open>The replies of the file that reference whisper \<open>i\<close>.\<close>

definition referencing :: "int \<Rightarrow> store \<Rightarrow> reply list" where
  "referencing i s = filter (\<lambda>r. r_whisper_id r = i) (load_data (replies_file s))"

text \<open>A store used as a concrete input: one whisper created at time 0 with one reply,
  as left by \<open>create_whisper\<close> and \<open>create_reply\<close>; and the clock 49 hours later.\<close>

definition old_whisper :: whisper where
  "old_whisper = \<lparr>w_id = 1, w_content = ''hello'', w_topic = ''vent'', w_is_sensitive = False,
                   w_replies_count = 1, w_created_at = 0\<rparr>"

definition old_reply :: reply where
  "old_reply = \<lparr>r_id = 1, r_whisper_id = 1, r_content = ''hi'', r_created_at = 5\<rparr>"

definition old_store :: store where
  "old_store = \<lparr>whispers_file = Some [old_whisper], replies_file = Some [old_reply]\<rparr>"

definition hours49 :: timestamp where
  "hours49 = 49 * 3600 * 1000000"

text \<open>Whether a route answered with status 200.\<close>

fun succeeded :: "'a response \<Rightarrow> bool" where
  "succeeded (Success x) = True"
| "succeeded r = False"

text \<open>
  Sequential calls of \<open>create_whisper\<close>, each with its clock reading, the outcome of its
  write and its body, one after the other on the store the previous call left; the
  responses are collected in call order.
\<close>

fun create_whispers :: "(timestamp \<times> write_outcome \<times> whisper_request option) list \<Rightarrow> store
    \<Rightarrow> store \<times> whisper response list" where
  "create_whispers [] s = (s, [])"
| "create_whispers ((now, ok, data) # calls) s =
     (let (s1, r) = create_whisper now ok data s;
          (s2, rs) = create_whispers calls s1
      in (s2, r # rs))"

text \<open>The identifiers assigned by the successful calls among the responses, in call order.\<close>

fun created_ids :: "whisper response list \<Rightarrow> int list" where
  "created_ids [] = []"
| "created_ids (Success w # rs) = w_id w # created_ids rs"
| "created_ids (r # rs) = created_ids rs"

text \<open>The next identifier as the specification words it: \<open>max(existing IDs) + 1\<close>, or
  \<open>1\<close> if the collection is empty.\<close>

definition next_id :: "int list \<Rightarrow> int" where
  "next_id ids = (if ids = [] then 1 else Max (set ids) + 1)"

text \<open>
  Sequential calls of \<open>create_reply\<close>, each with its clock reading, the whisper id of its
  route and its body, all of whose writes succeed.
\<close>

fun create_replies :: "(timestamp \<times> int \<times> reply_request option) list \<Rightarrow> store
    \<Rightarrow> store \<times> reply response list" where
  "create_replies [] s = (s, [])"
| "create_replies ((now, i, data) # calls) s =
     (let (s1, r) = create_reply now Written Written i data s;
          (s2, rs) = create_replies calls s1
      in (s2, r # rs))"

text \<open>The whisper that \<open>get_whisper i\<close> returns carries a \<open>replies_count\<close> equal to the
  number of replies of the file that reference \<open>i\<close>.\<close>

definition replies_count_consistent :: "int \<Rightarrow> store \<Rightarrow> bool" where
  "replies_count_consistent i s =
     (case get_whisper i s of
        Success w \<Rightarrow> w_replies_count w = int (length (referencing i s))
      | _ \<Rightarrow> False)"

text \<open>The reply that \<open>create_reply\<close> adds to \<open>old_store\<close> at time 9 for the content \<open>yo\<close>.\<close>

definition second_reply :: reply where
  "second_reply = \<lparr>r_id = 2, r_whisper_id = 1, r_content = ''yo'', r_created_at = 9\<rparr>"

text \<open>
  Stores met on the way from the empty files when a sweep's write of the whispers fails:
  a whisper created at time 0 that got two replies; the store after the sweep 49 hours
  later whose write of the replies succeeded and whose write of the whispers failed at
  \<open>open\<close>; and the reply then created against the whisper.
\<close>

definition counted_whisper :: whisper where
  "counted_whisper = \<lparr>w_id = 1, w_content = ''hello'', w_topic = ''random'',
                       w_is_sensitive = False, w_replies_count = 2, w_created_at = 0\<rparr>"

definition two_replies_store :: store where
  "two_replies_store =
     \<lparr>whispers_file = Some [counted_whisper],
      replies_file = Some [\<lparr>r_id = 1, r_whisper_id = 1, r_content = ''hi'', r_created_at = 1\<rparr>,
                           \<lparr>r_id = 2, r_whisper_id = 1, r_content = ''yo'', r_created_at = 2\<rparr>]\<rparr>"

definition half_swept_store :: store where
  "half_swept_store = \<lparr>whispers_file = Some [counted_whisper], replies_file = Some []\<rparr>"

definition late_reply :: reply where
  "late_reply = \<lparr>r_id = 1, r_whisper_id = 1, r_content = ''again'', r_created_at = hours49\<rparr>"

section \<open>Auxiliary facts\<close>

lemma fold_max_Max: "fold max ys (y::int) = Max (set (y # ys))"
  by (rule Max.set_eq_fold [symmetric])

lemma py_max_default_Max:
  "py_max_default xs d = (if xs = [] then d else Max (set xs))"
proof (cases xs)
  case Nil
  then show ?thesis by (simp add: py_max_default_def)
next
  case (Cons y ys)
  then have "py_max_default xs d = fold max ys y"
    by (simp add: py_max_default_def)
  with Cons show ?thesis
    by (simp only: fold_max_Max) simp
qed

lemma py_max_default_ge: "x \<in> set xs \<Longrightarrow> x \<le> py_max_default xs d"
  by (auto simp: py_max_default_Max)

lemma py_max_default_fresh: "py_max_default xs d + 1 \<notin> set xs"
  using py_max_default_ge [of "py_max_default xs d + 1" xs d] by auto

lemma py_max_default_snoc:
  "py_max_default (xs @ [py_max_default xs 0 + 1]) 0 = py_max_default xs 0 + 1"
proof (cases "xs = []")
  case True
  then show ?thesis by (simp add: py_max_default_def)
next
  case False
  then have "Max (insert (Max (set xs) + 1) (set xs)) = Max (set xs) + 1"
    by (subst Max_insert) (auto simp: max_def)
  with False show ?thesis by (simp add: py_max_default_Max)
qed

lemma py_sort_reverse_sorted:
  "sorted_wrt (\<lambda>a b. a \<ge> b) (map key (py_sort key True xs))"
proof -
  have "sorted (map key (sort_key key (rev xs)))" by simp
  then have "sorted_wrt (\<lambda>a b. b \<ge> a) (rev (map key (py_sort key True xs)))"
    by (simp add: py_sort_def rev_map)
  then show ?thesis
    by (simp add: sorted_wrt_rev)
qed

lemma py_sort_forward_sorted: "sorted (map key (py_sort key False xs))"
  by (simp add: py_sort_def)

lemma cleanup_loop_filter:
  "cleanup_loop c ws fw di =
     (fw @ filter (\<lambda>w. w_created_at w > c) ws,
      di @ map w_id (filter (\<lambda>w. \<not> w_created_at w > c) ws))"
  by (induction ws arbitrary: fw di) simp_all

lemma fst_save_data:
  "fst (save_data Written file data) = Some data"
  "fst (save_data Open_failed file data) = file"
  "fst (save_data Dump_failed file data) = None"
  by (simp_all add: save_data_def)

lemma load_save_data_subset:
  "set data \<subseteq> set (load_data file)
     \<Longrightarrow> set (load_data (fst (save_data outcome file data))) \<subseteq> set (load_data file)"
  by (cases outcome) (simp_all add: fst_save_data load_data_def)

lemma cleanup_unfold:
  "cleanup_old_whispers now okr okw s =
     (let ws = load_data (whispers_file s) in
      if list_all (\<lambda>w. \<not> is_expired now w) ws then (s, True)
      else (s\<lparr>replies_file :=
                 fst (save_data okr (replies_file s)
                   (filter (\<lambda>r. r_whisper_id r \<notin> w_id ` {w \<in> set ws. is_expired now w})
                      (load_data (replies_file s)))),
               whispers_file :=
                 fst (save_data okw (whispers_file s) (filter (\<lambda>w. \<not> is_expired now w) ws))\<rparr>,
            True))"
  by (auto simp: cleanup_old_whispers_def cleanup_loop_filter Let_def split_beta
      is_expired_def filter_empty_conv list_all_iff not_less not_le)

lemma filter_all: "list_all P xs \<Longrightarrow> filter P xs = xs"
  by (simp add: list_all_iff)

lemma cleanup_whispers_written:
  "load_data (whispers_file (fst (cleanup_old_whispers now okr Written s)))
     = filter (\<lambda>w. \<not> is_expired now w) (load_data (whispers_file s))"
  by (simp add: cleanup_unfold Let_def filter_all fst_save_data) (simp add: load_data_def)

lemma cleanup_whispers_subset:
  "set (load_data (whispers_file (fst (cleanup_old_whispers now okr okw s))))
     \<subseteq> set (load_data (whispers_file s))"
  by (simp add: cleanup_unfold Let_def load_save_data_subset)

lemma cleanup_none_expired:
  "list_all (\<lambda>w. \<not> is_expired now w) (load_data (whispers_file s))
     \<Longrightarrow> cleanup_old_whispers now okr okw s = (s, True)"
  by (simp add: cleanup_unfold)

lemma cleanup_after_written:
  "cleanup_old_whispers now okr' okw' (fst (cleanup_old_whispers now okr Written s))
     = (fst (cleanup_old_whispers now okr Written s), True)"
  by (rule cleanup_none_expired) (simp add: cleanup_whispers_written list_all_iff)

lemma cleanup_same_outcome:
  "fst (cleanup_old_whispers now okr okw (fst (cleanup_old_whispers now okr okw s)))
     = fst (cleanup_old_whispers now okr okw s)"
proof (cases "list_all (\<lambda>w. \<not> is_expired now w) (load_data (whispers_file s))")
  case True
  then show ?thesis by (simp add: cleanup_none_expired)
next
  case ex: False
  show ?thesis
  proof (cases okw)
    case Written
    then show ?thesis by (simp add: cleanup_after_written)
  next
    case Dump_failed
    with ex have "load_data (whispers_file (fst (cleanup_old_whispers now okr okw s))) = []"
      by (simp add: cleanup_unfold Let_def fst_save_data load_data_def)
    then show ?thesis by (simp add: cleanup_none_expired)
  next
    case Open_failed
    with ex show ?thesis
      by (cases okr) (simp_all add: cleanup_unfold Let_def fst_save_data load_data_def)
  qed
qed

lemma cleanup_replies_written:
  assumes "w \<in> set (load_data (whispers_file s))" "is_expired now w"
  shows "referencing (w_id w) (fst (cleanup_old_whispers now Written okw s)) = []"
proof -
  from assms have "\<not> list_all (\<lambda>w. \<not> is_expired now w) (load_data (whispers_file s))"
    by (auto simp: list_all_iff)
  with assms show ?thesis
    by (auto simp: cleanup_unfold Let_def referencing_def load_data_def filter_empty_conv
        fst_save_data)
qed

lemma set_py_sort: "set (py_sort key reverse xs) = set xs"
  by (simp add: py_sort_def)

lemma get_whispers_subset:
  assumes "snd (get_whispers now okr okw topic_arg s) = Success ws"
  shows "set ws \<subseteq> set (load_data (whispers_file s))"
proof -
  from assms have "set ws \<subseteq> set (load_data (whispers_file (fst (cleanup_old_whispers now okr okw s))))"
    by (auto simp: get_whispers_def Let_def split_beta set_py_sort split: if_splits)
  with cleanup_whispers_subset show ?thesis by blast
qed

lemma find_whisper_in: "find_whisper i ws = Some w \<Longrightarrow> w \<in> set ws \<and> w_id w = i"
  by (auto simp: find_whisper_def find_Some_iff)

lemma find_whisper_None: "find_whisper i ws = None \<longleftrightarrow> i \<notin> w_id ` set ws"
  by (auto simp: find_whisper_def find_None_iff)

lemma py_max_default_next_id: "py_max_default ids 0 + 1 = next_id ids"
  by (simp add: py_max_default_Max next_id_def)

lemma create_whisper_result:
  assumes "create_whisper now ok data s = (s1, r)"
  shows "(\<exists>w. r = Success w
            \<and> w_id w = py_max_default (map w_id (load_data (whispers_file s))) 0 + 1
            \<and> whispers_file s1 = Some (load_data (whispers_file s) @ [w])
            \<and> replies_file s1 = replies_file s)
         \<or> (\<not> succeeded r \<and> (ok \<noteq> Dump_failed \<longrightarrow> s1 = s))"
  using assms
  by (cases ok)
    (auto simp: create_whisper_def save_data_def Let_def split: option.splits if_splits)

lemma create_whispers_length: "length (snd (create_whispers calls s)) = length calls"
  by (induction calls arbitrary: s) (auto simp: split_beta)

lemma created_ids_from:
  "list_all succeeded (snd (create_whispers calls s))
     \<or> list_all (\<lambda>call. fst (snd call) \<noteq> Dump_failed) calls
   \<Longrightarrow> created_ids (snd (create_whispers calls s))
     = [py_max_default (map w_id (load_data (whispers_file s))) 0 + 1 ..
        py_max_default (map w_id (load_data (whispers_file s))) 0
          + int (length (filter succeeded (snd (create_whispers calls s))))]"
proof (induction calls arbitrary: s)
  case Nil
  then show ?case by simp
next
  case (Cons call calls)
  obtain now ok data where call: "call = (now, ok, data)" by (cases call)
  obtain s1 r where c: "create_whisper now ok data s = (s1, r)"
    by (cases "create_whisper now ok data s")
  let ?m = "py_max_default (map w_id (load_data (whispers_file s))) 0"
  let ?rs = "snd (create_whispers calls s1)"
  from c call have run: "snd (create_whispers (call # calls) s) = r # ?rs"
    by (simp add: split_beta)
  from Cons.prems run call
  have tail: "list_all succeeded ?rs \<or> list_all (\<lambda>call. fst (snd call) \<noteq> Dump_failed) calls"
    and head: "succeeded r \<or> ok \<noteq> Dump_failed"
    by auto
  from Cons.IH [OF tail]
  have ih: "created_ids ?rs
     = [py_max_default (map w_id (load_data (whispers_file s1))) 0 + 1 ..
        py_max_default (map w_id (load_data (whispers_file s1))) 0
          + int (length (filter succeeded ?rs))]" .
  from create_whisper_result [OF c] show ?case
  proof
    assume "\<exists>w. r = Success w \<and> w_id w = ?m + 1
        \<and> whispers_file s1 = Some (load_data (whispers_file s) @ [w])
        \<and> replies_file s1 = replies_file s"
    then obtain w where w: "r = Success w" "w_id w = ?m + 1"
        "whispers_file s1 = Some (load_data (whispers_file s) @ [w])" by blast
    from w(2,3) have m1: "py_max_default (map w_id (load_data (whispers_file s1))) 0 = ?m + 1"
      by (simp add: load_data_def py_max_default_snoc)
    have "[?m + 1 .. ?m + 1 + int (length (filter succeeded ?rs))]
        = (?m + 1) # [?m + 1 + 1 .. ?m + 1 + int (length (filter succeeded ?rs))]"
      by (rule upto_rec1) simp
    with ih m1 w(1,2) run show ?thesis
      by (simp add: add.commute add.left_commute)
  next
    assume "\<not> succeeded r \<and> (ok \<noteq> Dump_failed \<longrightarrow> s1 = s)"
    with head have "\<not> succeeded r" and "s1 = s" by auto
    with ih run show ?thesis
      by (cases r) simp_all
  qed
qed

lemma create_reply_Written:
  assumes "create_reply now okr okw i data s = (s1, Success rep)"
  shows "okr = Written"
  using assms
  by (cases okr)
    (auto simp: create_reply_def save_data_def Let_def split: option.splits if_splits)

lemma create_reply_Success:
  assumes "create_reply now okr okw i data s = (s1, Success rep)"
  shows "r_id rep = py_max_default (map r_id (load_data (replies_file s))) 0 + 1"
    and "r_whisper_id rep = i"
    and "replies_file s1 = Some (load_data (replies_file s) @ [rep])"
    and "whispers_file s1 =
           fst (save_data okw (whispers_file s)
             (set_replies_count i
                (int (length (filter (\<lambda>r. r_whisper_id r = i)
                   (load_data (replies_file s) @ [rep]))))
                (load_data (whispers_file s))))"
    and "find_whisper i (load_data (whispers_file s)) \<noteq> None"
  using assms create_reply_Written [OF assms]
  by (auto simp: create_reply_def fst_save_data Let_def add.commute split_beta 
      split: option.splits if_splits)

lemma create_reply_failure:
  assumes "create_reply now Written okw i data s = (s1, r)" and "\<not> succeeded r"
  shows "s1 = s"
  using assms
  by (auto simp: create_reply_def save_data_def Let_def split_beta
      split: option.splits if_splits)

lemma find_set_replies_count_same:
  "find_whisper i ws = Some w
     \<Longrightarrow> find_whisper i (set_replies_count i n ws) = Some (w\<lparr>w_replies_count := n\<rparr>)"
  by (induction ws) (auto simp: find_whisper_def split: if_splits)

lemma find_set_replies_count_other:
  "j \<noteq> i \<Longrightarrow> find_whisper i (set_replies_count j n ws) = find_whisper i ws"
  by (induction ws) (auto simp: find_whisper_def)

lemma create_reply_establishes:
  assumes "create_reply now okr Written i data s = (s1, Success rep)"
  shows "replies_count_consistent i s1"
proof -
  from create_reply_Success(5) [OF assms]
  obtain w where w: "find_whisper i (load_data (whispers_file s)) = Some w" by auto
  from create_reply_Success(3,4) [OF assms] w show ?thesis
    by (simp add: replies_count_consistent_def get_whisper_def referencing_def load_data_def
        find_set_replies_count_same fst_save_data)
qed

lemma create_reply_preserves:
  assumes "j \<noteq> i" and "replies_count_consistent i s"
    and "create_reply now Written Written j data s = (s1, r)"
  shows "replies_count_consistent i s1"
proof (cases r)
  case (Success rep)
  with assms(3) have c: "create_reply now Written Written j data s = (s1, Success rep)" by simp
  have g: "get_whisper i s1 = get_whisper i s"
    using create_reply_Success(4) [OF c] assms(1)
    by (simp add: get_whisper_def load_data_def find_set_replies_count_other fst_save_data)
  have f: "referencing i s1 = referencing i s"
    using create_reply_Success(2,3) [OF c] assms(1)
    by (simp add: referencing_def load_data_def)
  from assms(2) show ?thesis
    unfolding replies_count_consistent_def g f .
next
  case BadRequest
  with assms(3) have "s1 = s" by (auto dest: create_reply_failure)
  with assms(2) show ?thesis by simp
next
  case NotFound
  with assms(3) have "s1 = s" by (auto dest: create_reply_failure)
  with assms(2) show ?thesis by simp
next
  case ServerError
  with assms(3) have "s1 = s" by (auto dest: create_reply_failure)
  with assms(2) show ?thesis by simp
qed

lemma create_replies_consistent:
  "i \<in> set (map (fst \<circ> snd) calls) \<or> replies_count_consistent i s
     \<Longrightarrow> list_all succeeded (snd (create_replies calls s))
     \<Longrightarrow> replies_count_consistent i (fst (create_replies calls s))"
proof (induction calls arbitrary: s)
  case Nil
  then show ?case by simp
next
  case (Cons call calls)
  obtain now j data where call: "call = (now, j, data)" by (cases call)
  obtain s1 r where c: "create_reply now Written Written j data s = (s1, r)"
    by (cases "create_reply now Written Written j data s")
  from Cons.prems(2) call c have ok: "succeeded r"
      and rest: "list_all succeeded (snd (create_replies calls s1))"
    by (simp_all add: split_beta)
  have "i \<in> set (map (fst \<circ> snd) calls) \<or> replies_count_consistent i s1"
  proof (cases "j = i")
    case True
    from ok obtain rep where "r = Success rep" by (cases r) simp_all
    with c True show ?thesis by (auto dest: create_reply_establishes)
  next
    case False
    with Cons.prems(1) call c show ?thesis
      by (auto dest: create_reply_preserves)
  qed
  from Cons.IH [OF this rest] call c show ?case
    by (simp add: split_beta)
qed

lemma length_py_sort: "length (py_sort key reverse xs) = length xs"
  by (simp add: py_sort_def)

lemma run_create_whisper_hello:
  "create_whisper 7 Written
     (Some \<lparr>req_content = Some ''hello'', req_topic = Some ''vent'', req_is_sensitive = None\<rparr>)
     init_data
   = (\<lparr>whispers_file = Some [\<lparr>w_id = 1, w_content = ''hello'', w_topic = ''vent'',
          w_is_sensitive = False, w_replies_count = 0, w_created_at = 7\<rparr>],
        replies_file = Some []\<rparr>,
      Success \<lparr>w_id = 1, w_content = ''hello'', w_topic = ''vent'',
               w_is_sensitive = False, w_replies_count = 0, w_created_at = 7\<rparr>)"
  by (simp add: create_whisper_def init_data_def load_data_def save_data_def
      py_max_default_def strip_def py_isspace_def Let_def)

lemma run_create_reply_yo:
  "create_reply 9 Written Written 1 (Some \<lparr>rreq_content = Some ''yo''\<rparr>) old_store
   = (\<lparr>whispers_file = Some [old_whisper\<lparr>w_replies_count := 2\<rparr>],
        replies_file = Some [old_reply, second_reply]\<rparr>,
      Success second_reply)"
  by (simp add: create_reply_def old_store_def old_whisper_def old_reply_def second_reply_def
      find_whisper_def load_data_def save_data_def py_max_default_def strip_def py_isspace_def
      Let_def)

lemma run_create_reply_yo_count_lost:
  "create_reply 9 Written Open_failed 1 (Some \<lparr>rreq_content = Some ''yo''\<rparr>) old_store
   = (\<lparr>whispers_file = Some [old_whisper],
        replies_file = Some [old_reply, second_reply]\<rparr>,
      Success second_reply)"
  by (simp add: create_reply_def old_store_def old_whisper_def old_reply_def second_reply_def
      find_whisper_def load_data_def save_data_def py_max_default_def strip_def py_isspace_def
      Let_def)

lemma two_replies_store_reached:
  "fst (create_reply 2 Written Written 1 (Some \<lparr>rreq_content = Some ''yo''\<rparr>)
     (fst (create_reply 1 Written Written 1 (Some \<lparr>rreq_content = Some ''hi''\<rparr>)
       (fst (create_whisper 0 Written
         (Some \<lparr>req_content = Some ''hello'', req_topic = None, req_is_sensitive = None\<rparr>)
         init_data)))))
   = two_replies_store"
  by (simp add: create_reply_def create_whisper_def init_data_def two_replies_store_def
      counted_whisper_def find_whisper_def load_data_def save_data_def py_max_default_def
      strip_def py_isspace_def Let_def)

section \<open>Reads and the expiry sweep (C1)\<close>

text \<open>
  C1 says that every read operation sweeps first, so that no expired whisper and no reply
  of an expired whisper is ever returned. \<open>get_whispers\<close> calls \<open>cleanup_old_whispers\<close>;
  \<open>get_whisper\<close> and \<open>get_replies\<close> do not, and do not read the clock at all. On the store
  holding a whisper created at time 0 and its reply, 49 hours later, \<open>get_whisper\<close> returns
  the expired whisper and \<open>get_replies\<close> returns its reply, while \<open>get_whispers\<close> at that
  time sweeps both away and returns the empty list.
\<close>

theorem single_reads_return_expired:
  "is_expired hours49 old_whisper
   \<and> get_whisper 1 old_store = Success old_whisper
   \<and> get_replies 1 old_store = Success [old_reply]
   \<and> get_whispers hours49 Written Written None old_store = (init_data, Success [])"
  by (simp add: is_expired_def hours49_def hours48_def old_whisper_def old_reply_def
      old_store_def get_whisper_def find_whisper_def get_replies_def get_whispers_def
      cleanup_old_whispers_def load_data_def save_data_def py_sort_def init_data_def Let_def)

section \<open>Validation of the content (C2)\<close>

text \<open>
  C2 says that a \<open>create_whisper\<close> request whose content is empty after trimming is refused
  and stores nothing. The source tests the content before it strips it: a content of three
  spaces passes the test, and the whisper is stored with the empty content and takes id 1.
\<close>

theorem create_whisper_blank_content_stored:
  "create_whisper 7 Written
     (Some \<lparr>req_content = Some ''   '', req_topic = None, req_is_sensitive = None\<rparr>) init_data
   = (\<lparr>whispers_file = Some [\<lparr>w_id = 1, w_content = '''', w_topic = ''random'',
                                w_is_sensitive = False, w_replies_count = 0, w_created_at = 7\<rparr>],
        replies_file = Some []\<rparr>,
      Success \<lparr>w_id = 1, w_content = '''', w_topic = ''random'',
               w_is_sensitive = False, w_replies_count = 0, w_created_at = 7\<rparr>)"
  by (simp add: create_whisper_def init_data_def load_data_def save_data_def
      py_max_default_def strip_def py_isspace_def Let_def)

section \<open>Order of the lists (C7)\<close>

text \<open>
  C7: for every store, clock, outcome of the sweep's writes and topic filter, \<open>get_whispers\<close>
  returns a list whose \<open>created_at\<close> is non-increasing (newest first); for every whisper id,
  \<open>get_replies\<close> returns a list whose \<open>created_at\<close> is non-decreasing (oldest first).
\<close>

theorem list_order:
  "(\<exists>ws. snd (get_whispers now ok_replies ok_whispers topic_arg s) = Success ws
        \<and> sorted_wrt (\<lambda>a b. a \<ge> b) (map w_created_at ws))
   \<and> (\<exists>rs. get_replies i s = Success rs \<and> sorted (map r_created_at rs))"
  by (simp add: get_whispers_def get_replies_def Let_def split_beta
      py_sort_reverse_sorted py_sort_forward_sorted)

theorem list_order_witness:
  "(\<exists>ws. snd (get_whispers 10 Written Written (Some ''vent'') old_store) = Success ws
        \<and> sorted_wrt (\<lambda>a b. a \<ge> b) (map w_created_at ws))
   \<and> (\<exists>rs. get_replies 1 old_store = Success rs \<and> sorted (map r_created_at rs))"
  by (rule list_order)

section \<open>The stored topic (C8)\<close>

text \<open>
  C8 as stated says the stored topic is always one of \<open>ALL_TOPICS\<close>. The source stores the
  request's topic as it is given: the topic \<open>xyz\<close> is stored, and it is not in the list.
\<close>

theorem create_whisper_topic_counterexample:
  "snd (create_whisper 7 Written
     (Some \<lparr>req_content = Some ''hello'', req_topic = Some ''xyz'', req_is_sensitive = None\<rparr>)
     init_data)
   = Success \<lparr>w_id = 1, w_content = ''hello'', w_topic = ''xyz'',
               w_is_sensitive = False, w_replies_count = 0, w_created_at = 7\<rparr>
   \<and> ''xyz'' \<notin> set ALL_TOPICS"
  by (simp add: create_whisper_def init_data_def load_data_def save_data_def
      py_max_default_def strip_def py_isspace_def ALL_TOPICS_def Let_def)

text \<open>
  C8 amended: a successful \<open>create_whisper\<close> appends the whisper it returns to the file;
  its topic is \<open>random\<close>, a member of \<open>ALL_TOPICS\<close>, when the request has no topic, and
  is the request's topic unchanged when it has one, whether or not it is in \<open>ALL_TOPICS\<close>.
\<close>

theorem create_whisper_topic:
  assumes "create_whisper now ok (Some d) s = (s', Success w)"
  shows "w_topic w = (case req_topic d of None \<Rightarrow> ''random'' | Some t \<Rightarrow> t)
         \<and> ''random'' \<in> set ALL_TOPICS
         \<and> load_data (whispers_file s') = load_data (whispers_file s) @ [w]"
proof -
  from assms obtain content where c: "req_content d = Some content" "content \<noteq> []"
    by (auto simp: create_whisper_def split: option.splits if_splits)
  from assms c have "ok = Written"
    by (cases ok) (auto simp: create_whisper_def save_data_def Let_def)
  with assms c show ?thesis
    by (auto simp: create_whisper_def save_data_def load_data_def ALL_TOPICS_def Let_def)
qed

theorem create_whisper_topic_witness:
  "w_topic \<lparr>w_id = 1, w_content = ''hello'', w_topic = ''xyz'',
            w_is_sensitive = False, w_replies_count = 0, w_created_at = 7\<rparr> = ''xyz''
   \<and> ''random'' \<in> set ALL_TOPICS
   \<and> load_data (whispers_file \<lparr>whispers_file = Some [\<lparr>w_id = 1, w_content = ''hello'',
         w_topic = ''xyz'', w_is_sensitive = False, w_replies_count = 0, w_created_at = 7\<rparr>],
         replies_file = Some []\<rparr>)
     = load_data (whispers_file init_data) @ [\<lparr>w_id = 1, w_content = ''hello'',
         w_topic = ''xyz'', w_is_sensitive = False, w_replies_count = 0, w_created_at = 7\<rparr>]"
proof -
  have run: "create_whisper 7 Written
     (Some \<lparr>req_content = Some ''hello'', req_topic = Some ''xyz'', req_is_sensitive = None\<rparr>)
     init_data
   = (\<lparr>whispers_file = Some [\<lparr>w_id = 1, w_content = ''hello'', w_topic = ''xyz'',
          w_is_sensitive = False, w_replies_count = 0, w_created_at = 7\<rparr>],
        replies_file = Some []\<rparr>,
      Success \<lparr>w_id = 1, w_content = ''hello'', w_topic = ''xyz'',
               w_is_sensitive = False, w_replies_count = 0, w_created_at = 7\<rparr>)"
    by (simp add: create_whisper_def init_data_def load_data_def save_data_def
        py_max_default_def strip_def py_isspace_def Let_def)
  show ?thesis
    using create_whisper_topic [OF run] by simp
qed

section \<open>Sequential identifiers (C3)\<close>

text \<open>
  C3: starting from an empty whispers collection, for every sequence of sequential calls
  of \<open>create_whisper\<close> (no sweep between them) that are all successful, the identifiers
  assigned are 1, 2, ..., N in call order, N being the number of calls. More generally,
  when calls of the sequence may fail but no write is cut off after the file was opened,
  the successful calls get 1, 2, ..., N in call order, N being their number.
\<close>

theorem sequential_ids:
  assumes "load_data (whispers_file s) = []"
    and "create_whispers calls s = (s', rs)"
  shows "length rs = length calls
         \<and> (list_all (\<lambda>call. fst (snd call) \<noteq> Dump_failed) calls
              \<longrightarrow> created_ids rs = [1 .. int (length (filter succeeded rs))])
         \<and> (list_all succeeded rs \<longrightarrow> created_ids rs = [1 .. int (length calls)])"
proof -
  from assms(2) have rs: "rs = snd (create_whispers calls s)" by simp
  have l: "length rs = length calls"
    unfolding rs by (rule create_whispers_length)
  have i: "created_ids rs = [1 .. int (length (filter succeeded rs))]"
    if "list_all succeeded rs \<or> list_all (\<lambda>call. fst (snd call) \<noteq> Dump_failed) calls"
    using that created_ids_from [of calls s] assms(1)
    unfolding rs by (simp add: py_max_default_def)
  have "filter succeeded rs = rs" if "list_all succeeded rs"
    using that by (simp add: list_all_iff)
  with l i show ?thesis by auto
qed

theorem sequential_ids_witness:
  "load_data (whispers_file init_data) = []
   \<and> list_all (\<lambda>call. fst (snd call) \<noteq> Dump_failed)
        [(0, Written, Some \<lparr>req_content = Some ''a'', req_topic = None, req_is_sensitive = None\<rparr>),
         (5, Written, Some \<lparr>req_content = Some ''b'', req_topic = None, req_is_sensitive = None\<rparr>)]
   \<and> list_all succeeded (snd (create_whispers
        [(0, Written, Some \<lparr>req_content = Some ''a'', req_topic = None, req_is_sensitive = None\<rparr>),
         (5, Written, Some \<lparr>req_content = Some ''b'', req_topic = None, req_is_sensitive = None\<rparr>)]
        init_data))
   \<and> created_ids (snd (create_whispers
        [(0, Written, Some \<lparr>req_content = Some ''a'', req_topic = None, req_is_sensitive = None\<rparr>),
         (5, Written, Some \<lparr>req_content = Some ''b'', req_topic = None, req_is_sensitive = None\<rparr>)]
        init_data)) = [1, 2]"
proof -
  let ?calls = "[(0, Written, Some \<lparr>req_content = Some ''a'', req_topic = None, req_is_sensitive = None\<rparr>),
         (5, Written, Some \<lparr>req_content = Some ''b'', req_topic = None, req_is_sensitive = None\<rparr>)]"
  let ?w1 = "\<lparr>w_id = 1, w_content = ''a'', w_topic = ''random'', w_is_sensitive = False,
              w_replies_count = 0, w_created_at = 0\<rparr>"
  let ?w2 = "\<lparr>w_id = 2, w_content = ''b'', w_topic = ''random'', w_is_sensitive = False,
              w_replies_count = 0, w_created_at = 5\<rparr>"
  have e: "load_data (whispers_file init_data) = []"
    by (simp add: init_data_def load_data_def)
  have run: "create_whispers ?calls init_data
      = (\<lparr>whispers_file = Some [?w1, ?w2], replies_file = Some []\<rparr>, [Success ?w1, Success ?w2])"
    by (simp add: create_whisper_def init_data_def load_data_def save_data_def
        py_max_default_def strip_def py_isspace_def Let_def)
  have u: "[1 .. 2] = [1, 2::int]"
    by (simp add: upto_rec1)
  from sequential_ids [OF e run]
  have ids: "created_ids [Success ?w1, Success ?w2] = [1 .. 2]"
    by simp
  show ?thesis
    unfolding run using e ids u by simp
qed

section \<open>Idempotence of the sweep (C5)\<close>

text \<open>
  C5: at one time instant, a second run of \<open>cleanup_old_whispers\<close> right after a first one
  leaves both files as the first run left them: for every store, when the writes of the
  two runs have the same outcomes, and, whatever the outcomes of the second run, when
  the first run's write of the whispers succeeded. When no whisper of the file is expired
  the sweep returns the store it was given whatever the outcomes would be: it writes
  nothing.
\<close>

theorem cleanup_idempotent:
  "fst (cleanup_old_whispers now okr okw (fst (cleanup_old_whispers now okr okw s)))
     = fst (cleanup_old_whispers now okr okw s)
   \<and> fst (cleanup_old_whispers now okr' okw' (fst (cleanup_old_whispers now okr Written s)))
     = fst (cleanup_old_whispers now okr Written s)
   \<and> (list_all (\<lambda>w. \<not> is_expired now w) (load_data (whispers_file s))
        \<longrightarrow> cleanup_old_whispers now okr okw s = (s, True))"
  by (simp add: cleanup_same_outcome cleanup_after_written cleanup_none_expired)

theorem cleanup_idempotent_witness:
  "fst (cleanup_old_whispers hours49 Written Written old_store) = init_data
   \<and> fst (cleanup_old_whispers hours49 Written Written
        (fst (cleanup_old_whispers hours49 Written Written old_store))) = init_data
   \<and> list_all (\<lambda>w. \<not> is_expired 10 w) (load_data (whispers_file old_store))
   \<and> cleanup_old_whispers 10 Written Written old_store = (old_store, True)"
proof -
  have first: "fst (cleanup_old_whispers hours49 Written Written old_store) = init_data"
    by (simp add: cleanup_old_whispers_def old_store_def old_whisper_def old_reply_def
        hours49_def hours48_def load_data_def save_data_def init_data_def Let_def)
  have fresh: "list_all (\<lambda>w. \<not> is_expired 10 w) (load_data (whispers_file old_store))"
    by (simp add: is_expired_def hours48_def old_store_def old_whisper_def load_data_def)
  from cleanup_idempotent [of hours49 Written Written old_store Written Written]
    cleanup_idempotent [of 10 Written Written old_store Written Written] first fresh
  show ?thesis by simp
qed

section \<open>Completeness of the cascade (C6)\<close>

text \<open>
  C6: let \<open>w\<close> be a whisper of the file that is expired at the time of a sweep whose two
  writes succeed. After the sweep no reply referencing the id of \<open>w\<close> is left in the
  replies file, \<open>w\<close> is not in the whispers file, \<open>w\<close> is not in the list any later
  \<open>get_whispers\<close> returns, and \<open>get_whisper\<close> on its id does not return \<open>w\<close>; it returns
  404 when the ids of the file were distinct.
\<close>

theorem cascade_complete:
  assumes "w \<in> set (load_data (whispers_file s))"
    and "is_expired now w"
    and "s' = fst (cleanup_old_whispers now Written Written s)"
    and "snd (get_whispers now' okr okw topic_arg s') = Success ws"
  shows "referencing (w_id w) s' = []
         \<and> w \<notin> set (load_data (whispers_file s'))
         \<and> w \<notin> set ws
         \<and> get_whisper (w_id w) s' \<noteq> Success w
         \<and> (distinct (map w_id (load_data (whispers_file s)))
              \<longrightarrow> get_whisper (w_id w) s' = NotFound)"
proof -
  have r: "referencing (w_id w) s' = []"
    using assms(1-3) by (simp add: cleanup_replies_written)
  have f: "load_data (whispers_file s')
      = filter (\<lambda>w. \<not> is_expired now w) (load_data (whispers_file s))"
    using assms(3) by (simp add: cleanup_whispers_written)
  with assms(2) have a: "w \<notin> set (load_data (whispers_file s'))" by simp
  with get_whispers_subset [OF assms(4)] have l: "w \<notin> set ws" by blast
  have g: "get_whisper (w_id w) s' \<noteq> Success w"
    using a by (auto simp: get_whisper_def split: option.splits dest: find_whisper_in)
  have d: "get_whisper (w_id w) s' = NotFound"
    if "distinct (map w_id (load_data (whispers_file s)))"
  proof -
    have "w_id w \<notin> w_id ` set (load_data (whispers_file s'))"
    proof
      assume "w_id w \<in> w_id ` set (load_data (whispers_file s'))"
      then obtain v where v: "v \<in> set (load_data (whispers_file s'))" "w_id v = w_id w"
        by auto
      with f have "v \<in> set (load_data (whispers_file s))" by simp
      with that assms(1) v(2) have "v = w"
        by (auto simp: distinct_map inj_on_def)
      with v(1) a show False by simp
    qed
    then show ?thesis
      by (simp add: get_whisper_def find_whisper_None [symmetric])
  qed
  from r a l g d show ?thesis by blast
qed

theorem cascade_complete_witness:
  "old_whisper \<in> set (load_data (whispers_file old_store))
   \<and> is_expired hours49 old_whisper
   \<and> init_data = fst (cleanup_old_whispers hours49 Written Written old_store)
   \<and> snd (get_whispers hours49 Written Written None init_data) = Success []
   \<and> referencing 1 init_data = []
   \<and> old_whisper \<notin> set (load_data (whispers_file init_data))
   \<and> get_whisper 1 init_data = NotFound"
proof -
  have a: "old_whisper \<in> set (load_data (whispers_file old_store))"
    by (simp add: old_store_def load_data_def)
  have b: "is_expired hours49 old_whisper"
    by (simp add: is_expired_def hours49_def hours48_def old_whisper_def)
  have c: "init_data = fst (cleanup_old_whispers hours49 Written Written old_store)"
    by (simp add: cleanup_old_whispers_def old_store_def old_whisper_def old_reply_def
        hours49_def hours48_def load_data_def save_data_def init_data_def Let_def)
  have d: "snd (get_whispers hours49 Written Written None init_data) = Success []"
    by (simp add: get_whispers_def cleanup_old_whispers_def init_data_def load_data_def
        py_sort_def Let_def)
  have i: "w_id old_whisper = 1" "distinct (map w_id (load_data (whispers_file old_store)))"
    by (simp_all add: old_whisper_def old_store_def load_data_def)
  from cascade_complete [OF a b c d] a b c d i show ?thesis
    by simp
qed

section \<open>Identifiers within a collection (C4)\<close>

text \<open>
  C4 as stated says an identifier once assigned is never assigned again, even after the
  sweep deleted its record. The first whisper gets id 1; 49 hours later \<open>get_whispers\<close>
  sweeps it away, leaving the empty files; the next \<open>create_whisper\<close> assigns id 1 again.
\<close>

theorem id_reused_after_sweep:
  "snd (create_whisper 0 Written
      (Some \<lparr>req_content = Some ''a'', req_topic = None, req_is_sensitive = None\<rparr>) init_data)
     = Success \<lparr>w_id = 1, w_content = ''a'', w_topic = ''random'', w_is_sensitive = False,
                w_replies_count = 0, w_created_at = 0\<rparr>
   \<and> fst (get_whispers hours49 Written Written None
       (fst (create_whisper 0 Written
          (Some \<lparr>req_content = Some ''a'', req_topic = None, req_is_sensitive = None\<rparr>)
          init_data))) = init_data
   \<and> snd (create_whisper hours49 Written
      (Some \<lparr>req_content = Some ''b'', req_topic = None, req_is_sensitive = None\<rparr>) init_data)
     = Success \<lparr>w_id = 1, w_content = ''b'', w_topic = ''random'', w_is_sensitive = False,
                w_replies_count = 0, w_created_at = hours49\<rparr>"
  by (simp add: create_whisper_def get_whispers_def cleanup_old_whispers_def init_data_def
      load_data_def save_data_def py_max_default_def strip_def py_isspace_def hours49_def
      hours48_def Let_def)

text \<open>
  C4 amended: in each collection, a successful create assigns \<open>max(existing ids) + 1\<close>, or
  \<open>1\<close> when the collection is empty, where the existing ids are those of the records
  in the file at that moment; the new id differs from every id in the file, the record is
  appended, and ids that were pairwise distinct stay so. (An id whose record the sweep
  removed is not excluded.)
\<close>

theorem next_id_fresh:
  "(create_whisper now ok data s = (s', Success w) \<longrightarrow>
      w_id w = next_id (map w_id (load_data (whispers_file s)))
      \<and> w_id w \<notin> set (map w_id (load_data (whispers_file s)))
      \<and> load_data (whispers_file s') = load_data (whispers_file s) @ [w]
      \<and> (distinct (map w_id (load_data (whispers_file s)))
            \<longrightarrow> distinct (map w_id (load_data (whispers_file s')))))
   \<and> (create_reply now' okr okw i rdata t = (t', Success r) \<longrightarrow>
      r_id r = next_id (map r_id (load_data (replies_file t)))
      \<and> r_id r \<notin> set (map r_id (load_data (replies_file t)))
      \<and> load_data (replies_file t') = load_data (replies_file t) @ [r]
      \<and> (distinct (map r_id (load_data (replies_file t)))
            \<longrightarrow> distinct (map r_id (load_data (replies_file t')))))"
proof (intro conjI impI)
  assume c: "create_whisper now ok data s = (s', Success w)"
  from create_whisper_result [OF c]
  have i: "w_id w = py_max_default (map w_id (load_data (whispers_file s))) 0 + 1"
    and f: "whispers_file s' = Some (load_data (whispers_file s) @ [w])"
    by auto
  from i show "w_id w = next_id (map w_id (load_data (whispers_file s)))"
    by (simp add: py_max_default_next_id)
  from i show n: "w_id w \<notin> set (map w_id (load_data (whispers_file s)))"
    using py_max_default_fresh [of "map w_id (load_data (whispers_file s))" 0] by simp
  from f show l: "load_data (whispers_file s') = load_data (whispers_file s) @ [w]"
    by (simp add: load_data_def)
  assume "distinct (map w_id (load_data (whispers_file s)))"
  with n l show "distinct (map w_id (load_data (whispers_file s')))"
    by simp
next
  assume c: "create_reply now' okr okw i rdata t = (t', Success r)"
  note i = create_reply_Success(1) [OF c] and f = create_reply_Success(3) [OF c]
  from i show "r_id r = next_id (map r_id (load_data (replies_file t)))"
    by (simp add: py_max_default_next_id)
  from i show n: "r_id r \<notin> set (map r_id (load_data (replies_file t)))"
    using py_max_default_fresh [of "map r_id (load_data (replies_file t))" 0] by simp
  from f show l: "load_data (replies_file t') = load_data (replies_file t) @ [r]"
    by (simp add: load_data_def)
  assume "distinct (map r_id (load_data (replies_file t)))"
  with n l show "distinct (map r_id (load_data (replies_file t')))"
    by simp
qed

theorem next_id_fresh_witness:
  "next_id (map w_id (load_data (whispers_file init_data))) = 1
   \<and> next_id (map r_id (load_data (replies_file old_store))) = 2
   \<and> 2 \<notin> set (map r_id (load_data (replies_file old_store)))
   \<and> distinct (map r_id [old_reply, second_reply])"
proof -
  have d: "distinct (map r_id (load_data (replies_file old_store)))"
    by (simp add: old_store_def load_data_def)
  note w = next_id_fresh [THEN conjunct1, rule_format, OF run_create_whisper_hello]
  note r = next_id_fresh [THEN conjunct2, rule_format, OF run_create_reply_yo]
  from w r d show ?thesis
    by (simp add: second_reply_def old_reply_def old_store_def init_data_def load_data_def)
qed

section \<open>The replies count (C9)\<close>

text \<open>
  C9: after any sequence of \<open>create_reply\<close> calls that all succeed and whose writes all
  succeed, every whisper id \<open>i\<close> that a call of the sequence was made against is found by
  \<open>get_whisper\<close>, and the \<open>replies_count\<close> of that whisper equals the number of replies of
  the file that reference \<open>i\<close>, which is the length of the list \<open>get_replies i\<close> returns.
  The store before the sequence is arbitrary: the count is recomputed, not incremented.
\<close>

theorem replies_count_recomputed:
  assumes "i \<in> set (map (fst \<circ> snd) calls)"
    and "create_replies calls s = (s', rs)"
    and "list_all succeeded rs"
  shows "replies_count_consistent i s'
         \<and> (\<exists>w replies. get_whisper i s' = Success w \<and> get_replies i s' = Success replies
               \<and> w_replies_count w = int (length replies))"
proof -
  from assms have c: "replies_count_consistent i s'"
    using create_replies_consistent [of i calls s] by simp
  then obtain w where "get_whisper i s' = Success w"
      "w_replies_count w = int (length (referencing i s'))"
    by (auto simp: replies_count_consistent_def split: response.splits)
  with c show ?thesis
    by (simp add: get_replies_def referencing_def length_py_sort)
qed

theorem replies_count_recomputed_witness:
  "1 \<in> set (map (fst \<circ> snd) [(9::timestamp, 1::int, Some \<lparr>rreq_content = Some ''yo''\<rparr>)])
   \<and> list_all succeeded [Success second_reply]
   \<and> replies_count_consistent 1
        \<lparr>whispers_file = Some [old_whisper\<lparr>w_replies_count := 2\<rparr>],
         replies_file = Some [old_reply, second_reply]\<rparr>
   \<and> get_whisper 1 (fst (create_replies [(9, 1, Some \<lparr>rreq_content = Some ''yo''\<rparr>)] old_store))
       = Success (old_whisper\<lparr>w_replies_count := 2\<rparr>)"
proof -
  let ?calls = "[(9::timestamp, 1::int, Some \<lparr>rreq_content = Some ''yo''\<rparr>)]"
  have a: "1 \<in> set (map (fst \<circ> snd) ?calls)" by simp
  have run: "create_replies ?calls old_store
      = (\<lparr>whispers_file = Some [old_whisper\<lparr>w_replies_count := 2\<rparr>],
           replies_file = Some [old_reply, second_reply]\<rparr>, [Success second_reply])"
    by (simp add: run_create_reply_yo)
  have ok: "list_all succeeded [Success second_reply]" by simp
  have g: "get_whisper 1 \<lparr>whispers_file = Some [old_whisper\<lparr>w_replies_count := 2\<rparr>],
           replies_file = Some [old_reply, second_reply]\<rparr>
       = Success (old_whisper\<lparr>w_replies_count := 2\<rparr>)"
    by (simp add: get_whisper_def find_whisper_def load_data_def old_whisper_def)
  from replies_count_recomputed [OF a run ok] a ok g show ?thesis
    unfolding run by simp
qed

section \<open>A reply saved without its count (C10)\<close>

text \<open>
  C10 as stated says that when the write of the replies succeeds and the following write
  of the whispers fails, the parent is left with a \<open>replies_count\<close> smaller than the
  number of replies referencing it. From the empty files, a whisper is created and gets
  two replies (count 2); 49 hours later \<open>get_whispers\<close> sweeps, its write of the replies
  succeeds and its write of the whispers fails at \<open>open\<close>, which leaves the whisper with
  count 2 and no reply; a \<open>create_reply\<close> whose write of the whispers fails in the same way
  then succeeds and leaves count 2 against one reply.
\<close>

theorem reply_count_not_smaller_counterexample:
  "fst (create_reply 2 Written Written 1 (Some \<lparr>rreq_content = Some ''yo''\<rparr>)
     (fst (create_reply 1 Written Written 1 (Some \<lparr>rreq_content = Some ''hi''\<rparr>)
       (fst (create_whisper 0 Written
         (Some \<lparr>req_content = Some ''hello'', req_topic = None, req_is_sensitive = None\<rparr>)
         init_data)))))
     = two_replies_store
   \<and> fst (get_whispers hours49 Written Open_failed None two_replies_store) = half_swept_store
   \<and> create_reply hours49 Written Open_failed 1 (Some \<lparr>rreq_content = Some ''again''\<rparr>)
         half_swept_store
       = (\<lparr>whispers_file = Some [counted_whisper], replies_file = Some [late_reply]\<rparr>,
          Success late_reply)
   \<and> get_whisper 1 \<lparr>whispers_file = Some [counted_whisper], replies_file = Some [late_reply]\<rparr>
       = Success counted_whisper
   \<and> w_replies_count counted_whisper = 2
   \<and> referencing 1 \<lparr>whispers_file = Some [counted_whisper], replies_file = Some [late_reply]\<rparr>
       = [late_reply]
   \<and> \<not> w_replies_count counted_whisper
         < int (length (referencing 1
             \<lparr>whispers_file = Some [counted_whisper], replies_file = Some [late_reply]\<rparr>))"
proof -
  have sweep: "fst (get_whispers hours49 Written Open_failed None two_replies_store)
      = half_swept_store"
    by (simp add: get_whispers_def cleanup_old_whispers_def two_replies_store_def
        half_swept_store_def counted_whisper_def hours49_def hours48_def load_data_def
        save_data_def Let_def)
  have reply: "create_reply hours49 Written Open_failed 1
        (Some \<lparr>rreq_content = Some ''again''\<rparr>) half_swept_store
       = (\<lparr>whispers_file = Some [counted_whisper], replies_file = Some [late_reply]\<rparr>,
          Success late_reply)"
    by (simp add: create_reply_def half_swept_store_def counted_whisper_def late_reply_def
        find_whisper_def load_data_def save_data_def py_max_default_def strip_def
        py_isspace_def Let_def)
  have read: "get_whisper 1
        \<lparr>whispers_file = Some [counted_whisper], replies_file = Some [late_reply]\<rparr>
       = Success counted_whisper"
    by (simp add: get_whisper_def find_whisper_def load_data_def counted_whisper_def)
  have refs: "referencing 1
        \<lparr>whispers_file = Some [counted_whisper], replies_file = Some [late_reply]\<rparr>
       = [late_reply]"
    by (simp add: referencing_def load_data_def late_reply_def)
  have count: "w_replies_count counted_whisper = 2"
    by (simp add: counted_whisper_def)
  from two_replies_store_reached sweep reply read count show ?thesis
    by (simp only: refs) simp
qed

text \<open>
  C10 amended: the response of \<open>create_reply\<close> does not depend on the outcome of the write
  of the whispers. When the whisper exists, the content is not empty and the write of the
  replies succeeds, the route answers with the created reply and the reply is in the
  replies file, so that one more reply references the parent. When the write of the
  whispers then fails at \<open>open\<close>, the whispers file is as before and the parent keeps its
  former \<open>replies_count\<close>, which is smaller than the number of replies now referencing
  it exactly when it was not above their number before the call, in particular when it
  was equal to it. When the write fails after the file was opened, the whispers file no
  longer loads any whisper and the parent is not found.
\<close>

theorem create_reply_whispers_write_failed:
  assumes "find_whisper i (load_data (whispers_file s)) = Some w"
    and "content \<noteq> []"
    and "create_reply now Written okw i (Some \<lparr>rreq_content = Some content\<rparr>) s = (s', resp)"
  shows "(\<exists>r. resp = Success r \<and> r_whisper_id r = i
             \<and> load_data (replies_file s') = load_data (replies_file s) @ [r])
         \<and> length (referencing i s') = length (referencing i s) + 1
         \<and> (okw = Open_failed \<longrightarrow>
               whispers_file s' = whispers_file s
               \<and> get_whisper i s' = Success w
               \<and> (w_replies_count w < int (length (referencing i s'))
                    \<longleftrightarrow> w_replies_count w \<le> int (length (referencing i s)))
               \<and> (replies_count_consistent i s
                    \<longrightarrow> w_replies_count w < int (length (referencing i s'))))
         \<and> (okw = Dump_failed \<longrightarrow>
               load_data (whispers_file s') = [] \<and> get_whisper i s' = NotFound)
         \<and> snd (create_reply now' okr okw_a j data t) = snd (create_reply now' okr okw_b j data t)"
proof -
  let ?r = "\<lparr>r_id = py_max_default (map r_id (load_data (replies_file s))) 0 + 1,
             r_whisper_id = i, r_content = strip content, r_created_at = now\<rparr>"
  from assms have resp: "resp = Success ?r"
    by (auto simp: create_reply_def save_data_def Let_def split_beta)
  with assms(3) have c: "create_reply now Written okw i (Some \<lparr>rreq_content = Some content\<rparr>) s
      = (s', Success ?r)" by simp
  from create_reply_Success(3) [OF c]
  have l: "load_data (replies_file s') = load_data (replies_file s) @ [?r]"
    by (simp add: load_data_def)
  then have n: "length (referencing i s') = length (referencing i s) + 1"
    by (simp add: referencing_def)
  note wf = create_reply_Success(4) [OF c]
  have o: "whispers_file s' = whispers_file s \<and> get_whisper i s' = Success w
      \<and> (w_replies_count w < int (length (referencing i s'))
           \<longleftrightarrow> w_replies_count w \<le> int (length (referencing i s)))
      \<and> (replies_count_consistent i s
           \<longrightarrow> w_replies_count w < int (length (referencing i s')))"
    if "okw = Open_failed"
  proof -
    from wf that have same: "whispers_file s' = whispers_file s"
      by (simp add: fst_save_data)
    with assms(1) have g: "get_whisper i s' = Success w" "get_whisper i s = Success w"
      by (simp_all add: get_whisper_def)
    from g(2) have "w_replies_count w = int (length (referencing i s))"
      if "replies_count_consistent i s"
      using that by (simp add: replies_count_consistent_def)
    with same g(1) n show ?thesis by auto
  qed
  have d: "load_data (whispers_file s') = [] \<and> get_whisper i s' = NotFound"
    if "okw = Dump_failed"
    using wf that
    by (simp add: fst_save_data load_data_def get_whisper_def find_whisper_def)
  have ind: "snd (create_reply now' okr okw_a j data t) = snd (create_reply now' okr okw_b j data t)"
    by (simp add: create_reply_def Let_def split_beta split: option.splits)
  show ?thesis
  proof (intro conjI impI)
    from resp l show "\<exists>r. resp = Success r \<and> r_whisper_id r = i
        \<and> load_data (replies_file s') = load_data (replies_file s) @ [r]"
      by simp
    show "length (referencing i s') = length (referencing i s) + 1" by (rule n)
    show "load_data (whispers_file s') = []" if "okw = Dump_failed"
      using d [OF that] by simp
    show "get_whisper i s' = NotFound" if "okw = Dump_failed"
      using d [OF that] by simp
    show "snd (create_reply now' okr okw_a j data t) = snd (create_reply now' okr okw_b j data t)"
      by (rule ind)
  qed (use o in blast)+
qed

theorem create_reply_whispers_write_failed_witness:
  "find_whisper 1 (load_data (whispers_file old_store)) = Some old_whisper
   \<and> create_reply 9 Written Open_failed 1 (Some \<lparr>rreq_content = Some ''yo''\<rparr>) old_store
       = (\<lparr>whispers_file = Some [old_whisper], replies_file = Some [old_reply, second_reply]\<rparr>,
          Success second_reply)
   \<and> replies_count_consistent 1 old_store
   \<and> w_replies_count old_whisper = 1
   \<and> length (referencing 1
         \<lparr>whispers_file = Some [old_whisper], replies_file = Some [old_reply, second_reply]\<rparr>) = 2
   \<and> w_replies_count old_whisper
       < int (length (referencing 1
           \<lparr>whispers_file = Some [old_whisper], replies_file = Some [old_reply, second_reply]\<rparr>))"
proof -
  let ?s' = "\<lparr>whispers_file = Some [old_whisper], replies_file = Some [old_reply, second_reply]\<rparr>"
  have a: "find_whisper 1 (load_data (whispers_file old_store)) = Some old_whisper"
    by (simp add: find_whisper_def load_data_def old_store_def old_whisper_def)
  have b: "''yo'' \<noteq> []" by simp
  have c: "replies_count_consistent 1 old_store"
    by (simp add: replies_count_consistent_def get_whisper_def find_whisper_def referencing_def
        load_data_def old_store_def old_whisper_def old_reply_def)
  have n: "w_replies_count old_whisper = 1"
    by (simp add: old_whisper_def)
  have m: "length (referencing 1 old_store) = 1"
    by (simp add: referencing_def load_data_def old_store_def old_reply_def)
  note t = create_reply_whispers_write_failed [OF a b run_create_reply_yo_count_lost,
      where now' = 0 and okr = Written and okw_a = Written and okw_b = Open_failed
        and j = 1 and data = None and t = init_data]
  note one_more = t [THEN conjunct2, THEN conjunct1]
  note kept = t [THEN conjunct2, THEN conjunct2, THEN conjunct1, THEN mp, OF refl]
  note lt = kept [THEN conjunct2, THEN conjunct2, THEN conjunct2, THEN mp, OF c]
  from one_more m have len: "length (referencing 1 ?s') = 2" by simp
  show ?thesis
    using a run_create_reply_yo_count_lost c n len lt by (intro conjI)
qed

end
